theory Spec2Isabelle
  imports Complex_Main "HOL-Library.Sublist"
begin

section \<open>Strings\<close>

text \<open>
  A Kotlin \<^verbatim>\<open>String\<close> is modelled as a list of characters. The handlers of
  \<^verbatim>\<open>TwinCommands.kt\<close> use four string operations of the Kotlin standard library:
  \<^verbatim>\<open>startsWith\<close>, \<^verbatim>\<open>contains\<close>, \<^verbatim>\<open>substring\<close> and \<^verbatim>\<open>replace\<close>. None of them
  depends on the alphabet, so the width of a character plays no role.
\<close>

definition startsWith :: "string \<Rightarrow> string \<Rightarrow> bool" where
  "startsWith s p = prefix p s"

fun contains :: "string \<Rightarrow> string \<Rightarrow> bool" where
  "contains [] sub = (sub = [])"
| "contains (c # cs) sub = (prefix sub (c # cs) \<or> contains cs sub)"

text \<open>\<^verbatim>\<open>s.substring(k)\<close> throws when \<open>k\<close> exceeds the length of \<open>s\<close>.\<close>

definition substring :: "string \<Rightarrow> nat \<Rightarrow> string option" where
  "substring s k = (if k \<le> length s then Some (drop k s) else None)"

text \<open>
  \<^verbatim>\<open>s.replace(old, new)\<close> replaces every occurrence of \<open>old\<close>, found from left to
  right without overlap. For an empty \<open>old\<close> Kotlin inserts \<open>new\<close> before every
  character and at the end.
\<close>

function replace :: "string \<Rightarrow> string \<Rightarrow> string \<Rightarrow> string" where
  "replace s old new =
     (if old = [] then new @ concat (map (\<lambda>c. c # new) s)
      else if s = [] then []
      else if prefix old s then new @ replace (drop (length old) s) old new
      else hd s # replace (tl s) old new)"
  by pat_completeness auto
termination
  by (relation "measure (\<lambda>(s, old, new). length s)") auto

declare replace.simps [simp del]

section \<open>Data\<close>

text \<open>
  \<^verbatim>\<open>TwinData\<close>, with the fields the handlers read.
\<close>

record twin_data =
  name :: string
  display_name :: string
  twin_id :: string
  api_endpoint :: string
  minecraft_skin_url :: "string option"
  minecraft_username :: "string option"

text \<open>The reply of \<^verbatim>\<open>TwinAPI.sendMessage\<close>; \<^verbatim>\<open>audioUrl\<close> is nullable.\<close>

record chat_response =
  response_text :: string
  audioUrl :: "string option"

text \<open>An exception caught by a handler; \<^verbatim>\<open>e.message\<close> is nullable.\<close>

datatype exn = Exception (exn_message: "string option")

text \<open>
  The player behind a command source: the handlers read its block position and its yaw,
  and send it messages.
\<close>

record player =
  uuid :: nat
  blockPos :: "int \<times> int \<times> int"
  yaw :: real

text \<open>
  A \<^verbatim>\<open>TwinEntity\<close>: the name given by \<^verbatim>\<open>setTwinData\<close>, the position and angles given
  by \<^verbatim>\<open>refreshPositionAndAngles\<close>, and the flag read by \<^verbatim>\<open>isAlive\<close>.
\<close>

record twin_entity =
  twinName :: string
  entity_x :: real
  entity_y :: real
  entity_z :: real
  entity_yaw :: real
  entity_pitch :: real
  alive :: bool

text \<open>
  The chat messages sent with \<^verbatim>\<open>player.sendMessage(Text.literal(...))\<close>, one
  constructor for each literal of the source, carrying the interpolated values.
\<close>

datatype notification =
    Downloading
  | Loaded string
  | SkinInfo "string option"
  | ImportFailed "string option"
  | NoTwins
  | ListHeader
  | ListEntry string bool
  | AlreadySpawned string
  | SpawnTwinNotFound string
  | CreateFailed
  | Spawned string
  | ChatHint string
  | ChatTwinNotFound string
  | Thinking string
  | Reply string string
  | PlayingVoice
  | ChatFailed "string option"
  | CheckConnection
  | NotSpawned string
  | Despawned string

text \<open>
  The text of each message. The section sign, the hourglass, the check mark, the cross and
  the loudspeaker are written as their UTF-8 bytes; a null value in a string template
  prints as \<^verbatim>\<open>null\<close>.
\<close>

definition sect :: string where
  "sect = [CHR 0xC2, CHR 0xA7]"

definition hourglass :: string where
  "hourglass = [CHR 0xE2, CHR 0x8F, CHR 0xB3]"

definition check_mark :: string where
  "check_mark = [CHR 0xE2, CHR 0x9C, CHR 0x93]"

definition cross_mark :: string where
  "cross_mark = [CHR 0xE2, CHR 0x9C, CHR 0x97]"

definition loudspeaker :: string where
  "loudspeaker = [CHR 0xF0, CHR 0x9F, CHR 0x94, CHR 0x8A]"

definition template :: "string option \<Rightarrow> string" where
  "template v = (case v of None \<Rightarrow> ''null'' | Some s \<Rightarrow> s)"

fun render :: "notification \<Rightarrow> string" where
  "render Downloading = sect @ ''e'' @ hourglass @ '' Downloading twin data...''"
| "render (Loaded d) = sect @ ''a'' @ check_mark @ '' Loaded twin: '' @ d"
| "render (SkinInfo u) = sect @ ''7   Minecraft skin: '' @ template u"
| "render (ImportFailed m) = sect @ ''c'' @ cross_mark @ '' Failed to import twin: '' @ template m"
| "render NoTwins = sect @ ''eNo twins imported. Use /twinimport <url>''"
| "render ListHeader = sect @ ''b=== Imported Twins ===''"
| "render (ListEntry d sp) =
     sect @ ''f- '' @ d @ '' '' @ (if sp then sect @ ''a(Spawned)'' else sect @ ''7(Not spawned)'')"
| "render (AlreadySpawned n) = sect @ ''e'' @ n @ '' is already spawned! Use /twinremove first.''"
| "render (SpawnTwinNotFound n) = sect @ ''cTwin not found: '' @ n @ ''. Use /twinimport first.''"
| "render CreateFailed = sect @ ''cFailed to create twin entity''"
| "render (Spawned d) = sect @ ''a'' @ check_mark @ '' Spawned '' @ d @ '' at your location!''"
| "render (ChatHint n) = sect @ ''7Right-click to chat, or use: /twin '' @ n @ '' <message>''"
| "render (ChatTwinNotFound n) = sect @ ''cTwin not found: '' @ n"
| "render (Thinking d) = sect @ ''e'' @ d @ '' is thinking...''"
| "render (Reply d t) = sect @ ''b['' @ d @ '']'' @ sect @ ''f '' @ t"
| "render PlayingVoice = sect @ ''a'' @ loudspeaker @ '' Playing voice...''"
| "render (ChatFailed m) = sect @ ''c'' @ cross_mark @ '' Failed to get response: '' @ template m"
| "render CheckConnection = sect @ ''7Check your internet connection and API endpoint.''"
| "render (NotSpawned n) = sect @ ''e'' @ n @ '' is not currently spawned.''"
| "render (Despawned n) = sect @ ''a'' @ check_mark @ '' Despawned '' @ n"

section \<open>State\<close>

text \<open>
  The state the handlers act on. \<open>storage\<close> is the content of \<^verbatim>\<open>TwinStorage\<close>.
  \<open>spawnedEntities\<close> is the map of the same name in \<^verbatim>\<open>TwinCommands\<close>: its values are
  references, so the entities themselves live in the store \<open>entities\<close>, where their
  \<open>alive\<close> flag can change while the map still refers to them. \<open>world\<close> lists the
  entities added with \<^verbatim>\<open>world.spawnEntity\<close>, \<open>outbox\<close> the messages sent, each with the
  player it went to, and \<open>played\<close> the URLs given to \<^verbatim>\<open>TwinAudioPlayer.playAudioFromUrl\<close>.
\<close>

record state =
  storage :: "twin_data list"
  spawnedEntities :: "string \<rightharpoonup> nat"
  entities :: "nat \<rightharpoonup> twin_entity"
  next_entity :: nat
  world :: "nat list"
  outbox :: "(nat \<times> notification) list"
  played :: "string list"

definition init :: state where
  "init = \<lparr>storage = [], spawnedEntities = Map.empty, entities = Map.empty, next_entity = 0,
           world = [], outbox = [], played = []\<rparr>"

definition sendMessage :: "player \<Rightarrow> notification \<Rightarrow> state \<Rightarrow> state" where
  "sendMessage p m st = st\<lparr>outbox := outbox st @ [(uuid p, m)]\<rparr>"

section \<open>Collaborators of the handlers\<close>

text \<open>
  Modelled from the spec: \<^verbatim>\<open>TwinStorage\<close> (\<^verbatim>\<open>load\<close>, \<^verbatim>\<open>getTwinByName\<close>, \<^verbatim>\<open>addTwin\<close>)
  is not among the sources. The spec describes it as the Directory: \<open>listAll\<close> returns
  the stored profiles, \<open>getByName\<close> returns the profile stored under a name or nothing,
  and \<open>upsert\<close> inserts a profile or replaces the one stored under its name.
\<close>

definition load :: "state \<Rightarrow> twin_data list" where
  "load st = storage st"

definition getTwinByName :: "state \<Rightarrow> string \<Rightarrow> twin_data option" where
  "getTwinByName st nm = find (\<lambda>t. name t = nm) (storage st)"

fun upsert :: "twin_data \<Rightarrow> twin_data list \<Rightarrow> twin_data list" where
  "upsert t [] = [t]"
| "upsert t (x # xs) = (if name x = name t then t # xs else x # upsert t xs)"

definition addTwin :: "twin_data \<Rightarrow> state \<Rightarrow> state" where
  "addTwin t st = st\<lparr>storage := upsert t (storage st)\<rparr>"

text \<open>
  Modelled from the spec: \<^verbatim>\<open>TwinEntity\<close> and \<^verbatim>\<open>ModEntities.TWIN_ENTITY\<close> are not among
  the sources. The spec describes a live instance with a liveness flag, whose
  construction can fail, which explicit removal terminates, and which can terminate by
  itself (its flag flips to false). \<open>create\<close> takes the outcome of the construction as
  its first argument and returns a new entity that is alive and not yet in the world;
  \<open>discard\<close> clears the flag and takes the entity out of the world; \<open>terminate\<close> is
  the entity's own termination.
\<close>

definition new_entity :: twin_entity where
  "new_entity = \<lparr>twinName = [], entity_x = 0, entity_y = 0, entity_z = 0,
                 entity_yaw = 0, entity_pitch = 0, alive = True\<rparr>"

definition create :: "bool \<Rightarrow> state \<Rightarrow> (nat \<times> state) option" where
  "create ok st =
     (if ok then
        Some (next_entity st,
              st\<lparr>entities := (entities st)(next_entity st \<mapsto> new_entity),
                 next_entity := Suc (next_entity st)\<rparr>)
      else None)"

definition update_entity :: "nat \<Rightarrow> (twin_entity \<Rightarrow> twin_entity) \<Rightarrow> state \<Rightarrow> state" where
  "update_entity e f st =
     (case entities st e of
        None \<Rightarrow> st
      | Some ent \<Rightarrow> st\<lparr>entities := (entities st)(e \<mapsto> f ent)\<rparr>)"

definition setTwinData :: "nat \<Rightarrow> string \<Rightarrow> state \<Rightarrow> state" where
  "setTwinData e nm st = update_entity e (\<lambda>ent. ent\<lparr>twinName := nm\<rparr>) st"

definition refreshPositionAndAngles ::
  "nat \<Rightarrow> real \<Rightarrow> real \<Rightarrow> real \<Rightarrow> real \<Rightarrow> real \<Rightarrow> state \<Rightarrow> state" where
  "refreshPositionAndAngles e x y z yw pt st =
     update_entity e (\<lambda>ent. ent\<lparr>entity_x := x, entity_y := y, entity_z := z,
                               entity_yaw := yw, entity_pitch := pt\<rparr>) st"

definition spawnEntity :: "nat \<Rightarrow> state \<Rightarrow> state" where
  "spawnEntity e st = st\<lparr>world := world st @ [e]\<rparr>"

definition isAlive :: "state \<Rightarrow> nat \<Rightarrow> bool" where
  "isAlive st e = (case entities st e of None \<Rightarrow> False | Some ent \<Rightarrow> alive ent)"

definition terminate :: "nat \<Rightarrow> state \<Rightarrow> state" where
  "terminate e st = update_entity e (\<lambda>ent. ent\<lparr>alive := False\<rparr>) st"

definition discard :: "nat \<Rightarrow> state \<Rightarrow> state" where
  "discard e st = (terminate e st)\<lparr>world := removeAll e (world st)\<rparr>"

definition playAudioFromUrl :: "string \<Rightarrow> state \<Rightarrow> state" where
  "playAudioFromUrl u st = st\<lparr>played := played st @ [u]\<rparr>"

definition isNullOrEmpty :: "string option \<Rightarrow> bool" where
  "isNullOrEmpty v = (case v of None \<Rightarrow> True | Some s \<Rightarrow> s = [])"

section \<open>The handlers of \<^verbatim>\<open>TwinCommands\<close>\<close>

text \<open>
  Each handler takes the player of the command source (\<open>None\<close> when the source has no
  player) and the state, and returns the new state. \<^verbatim>\<open>importTwin\<close> and
  \<^verbatim>\<open>chatWithTwin\<close> launch a coroutine: they also return the request it makes, and the
  body that runs once the request has returned or thrown is a function of its own
  (\<open>importTwin_done\<close>, \<open>chatWithTwin_done\<close>).
\<close>

datatype task =
    DownloadTwin string
  | SendChat string string string

definition isSpawned :: "state \<Rightarrow> string \<Rightarrow> bool" where
  "isSpawned st nm = (case spawnedEntities st nm of None \<Rightarrow> False | Some e \<Rightarrow> isAlive st e)"

definition username_url :: "string \<Rightarrow> string" where
  "username_url username = ''https://replik.tech/api/minecraft/export/username/'' @ username"

text \<open>
  The \<^verbatim>\<open>when\<close> expression of \<^verbatim>\<open>importTwin\<close> that computes \<^verbatim>\<open>finalUrl\<close>. Its second
  branch calls \<^verbatim>\<open>substring(1)\<close> on a string that starts with \<^verbatim>\<open>@\<close>, which cannot
  throw (lemma \<open>substring_at\<close> below), so the branch is written with \<open>drop 1\<close>.
\<close>

definition finalUrl :: "string \<Rightarrow> string" where
  "finalUrl urlOrUsername =
     (if startsWith urlOrUsername ''http'' then urlOrUsername
      else if startsWith urlOrUsername ''@'' then username_url (drop 1 urlOrUsername)
      else if \<not> contains urlOrUsername ''/'' \<and> \<not> contains urlOrUsername ''.'' then
        username_url urlOrUsername
      else urlOrUsername)"

definition importTwin :: "player option \<Rightarrow> string \<Rightarrow> state \<Rightarrow> state \<times> task option" where
  "importTwin src urlOrUsername st =
     (case src of
        None \<Rightarrow> (st, None)
      | Some p \<Rightarrow> (sendMessage p Downloading st, Some (DownloadTwin (finalUrl urlOrUsername))))"

text \<open>
  The coroutine of \<^verbatim>\<open>importTwin\<close>, given what \<^verbatim>\<open>TwinAPI.downloadTwin(finalUrl)\<close> did:
  \<open>Inr\<close> the profile it returned, \<open>Inl\<close> the exception it threw.
\<close>

definition importTwin_done :: "player \<Rightarrow> exn + twin_data \<Rightarrow> state \<Rightarrow> state" where
  "importTwin_done p result st =
     (case result of
        Inr twinData \<Rightarrow>
          (let st1 = addTwin twinData st;
               st2 = sendMessage p (Loaded (display_name twinData)) st1
           in if \<not> isNullOrEmpty (minecraft_skin_url twinData)
              then sendMessage p (SkinInfo (minecraft_username twinData)) st2
              else st2)
      | Inl e \<Rightarrow> sendMessage p (ImportFailed (exn_message e)) st)"

definition listTwins :: "player option \<Rightarrow> state \<Rightarrow> state" where
  "listTwins src st =
     (case src of
        None \<Rightarrow> st
      | Some p \<Rightarrow>
          (let twins = load st
           in if twins = [] then sendMessage p NoTwins st
              else foldl (\<lambda>s twin. sendMessage p (ListEntry (display_name twin) (isSpawned s (name twin))) s)
                     (sendMessage p ListHeader st) twins))"

text \<open>The statements of \<^verbatim>\<open>spawnTwin\<close> that follow its ``already spawned'' check.\<close>

definition spawn_rest :: "player \<Rightarrow> string \<Rightarrow> bool \<Rightarrow> state \<Rightarrow> state" where
  "spawn_rest p nm ok st =
     (case getTwinByName st nm of
        None \<Rightarrow> sendMessage p (SpawnTwinNotFound nm) st
      | Some twinData \<Rightarrow>
          (case create ok st of
             None \<Rightarrow> sendMessage p CreateFailed st
           | Some (twinEntity, st1) \<Rightarrow>
               (let st2 = setTwinData twinEntity nm st1;
                    (x, y, z) = blockPos p;
                    st3 = refreshPositionAndAngles twinEntity
                            (real_of_int x + 0.5) (real_of_int y) (real_of_int z + 0.5)
                            (yaw p) 0 st2;
                    st4 = spawnEntity twinEntity st3;
                    st5 = st4\<lparr>spawnedEntities := (spawnedEntities st4)(nm \<mapsto> twinEntity)\<rparr>;
                    st6 = sendMessage p (Spawned (display_name twinData)) st5
                in sendMessage p (ChatHint (name twinData)) st6)))"

text \<open>
  \<^verbatim>\<open>spawnTwin\<close>; the Boolean is the outcome of \<^verbatim>\<open>ModEntities.TWIN_ENTITY.create(world)\<close>.
\<close>

definition spawnTwin :: "player option \<Rightarrow> string \<Rightarrow> bool \<Rightarrow> state \<Rightarrow> state" where
  "spawnTwin src nm ok st =
     (case src of
        None \<Rightarrow> st
      | Some p \<Rightarrow>
          if isSpawned st nm then sendMessage p (AlreadySpawned nm) st
          else spawn_rest p nm ok st)"

definition fullAudioUrl :: "twin_data \<Rightarrow> string \<Rightarrow> string" where
  "fullAudioUrl twinData a =
     (if startsWith a ''http'' then a
      else replace (api_endpoint twinData) ''/api/speak'' [] @ a)"

definition chatWithTwin ::
  "player option \<Rightarrow> string \<Rightarrow> string \<Rightarrow> state \<Rightarrow> state \<times> task option" where
  "chatWithTwin src nm message st =
     (case src of
        None \<Rightarrow> (st, None)
      | Some p \<Rightarrow>
          (case getTwinByName st nm of
             None \<Rightarrow> (sendMessage p (ChatTwinNotFound nm) st, None)
           | Some twinData \<Rightarrow>
               (sendMessage p (Thinking (display_name twinData)) st,
                Some (SendChat (api_endpoint twinData) (twin_id twinData) message))))"

text \<open>
  The coroutine of \<^verbatim>\<open>chatWithTwin\<close>, given what \<^verbatim>\<open>TwinAPI.sendMessage\<close> did.
\<close>

definition chatWithTwin_done :: "player \<Rightarrow> twin_data \<Rightarrow> exn + chat_response \<Rightarrow> state \<Rightarrow> state" where
  "chatWithTwin_done p twinData result st =
     (case result of
        Inr response \<Rightarrow>
          (let st1 = sendMessage p (Reply (display_name twinData) (response_text response)) st
           in if \<not> isNullOrEmpty (audioUrl response)
              then (case audioUrl response of
                      None \<Rightarrow> st1
                    | Some a \<Rightarrow>
                        playAudioFromUrl (fullAudioUrl twinData a) (sendMessage p PlayingVoice st1))
              else st1)
      | Inl e \<Rightarrow>
          sendMessage p CheckConnection (sendMessage p (ChatFailed (exn_message e)) st))"

definition removeTwin :: "player option \<Rightarrow> string \<Rightarrow> state \<Rightarrow> state" where
  "removeTwin src nm st =
     (case src of
        None \<Rightarrow> st
      | Some p \<Rightarrow>
          if \<not> isSpawned st nm then sendMessage p (NotSpawned nm) st
          else
            (let st1 = (case spawnedEntities st nm of
                          None \<Rightarrow> st
                        | Some entity \<Rightarrow>
                            (let s = discard entity st
                             in s\<lparr>spawnedEntities := (spawnedEntities s)(nm := None)\<rparr>))
             in sendMessage p (Despawned nm) st1))"

section \<open>Histories\<close>

text \<open>
  What can happen to the state: a command handler runs, a launched coroutine finishes,
  or an entity terminates by itself. A history is a list of such events, applied from
  left to right. Each event is applied as a whole, so a history is the handlers running
  one at a time; calls whose steps interleave are modelled in the section on two calls of
  \<^verbatim>\<open>spawnTwin\<close> below and are not histories.
\<close>

datatype event =
    ImportCmd "player option" string
  | ImportDone player "exn + twin_data"
  | ListCmd "player option"
  | SpawnCmd "player option" string bool
  | ChatCmd "player option" string string
  | ChatDone player twin_data "exn + chat_response"
  | RemoveCmd "player option" string
  | Terminates nat

fun apply_event :: "event \<Rightarrow> state \<Rightarrow> state" where
  "apply_event (ImportCmd src url) st = fst (importTwin src url st)"
| "apply_event (ImportDone p result) st = importTwin_done p result st"
| "apply_event (ListCmd src) st = listTwins src st"
| "apply_event (SpawnCmd src nm ok) st = spawnTwin src nm ok st"
| "apply_event (ChatCmd src nm message) st = fst (chatWithTwin src nm message st)"
| "apply_event (ChatDone p twinData result) st = chatWithTwin_done p twinData result st"
| "apply_event (RemoveCmd src nm) st = removeTwin src nm st"
| "apply_event (Terminates e) st = terminate e st"

definition run :: "event list \<Rightarrow> state \<Rightarrow> state" where
  "run evs st = foldl (\<lambda>s ev. apply_event ev s) st evs"

text \<open>The entities of the world that are alive and carry a given twin name.\<close>

definition live_instances :: "state \<Rightarrow> string \<Rightarrow> nat list" where
  "live_instances st nm =
     filter (\<lambda>e. case entities st e of None \<Rightarrow> False | Some ent \<Rightarrow> alive ent \<and> twinName ent = nm)
       (world st)"

text \<open>
  The invariant behind the registry: the entities of the world are distinct and were all
  created before, and each of them that is alive is the one registered under its name.
\<close>

definition registry_inv :: "state \<Rightarrow> bool" where
  "registry_inv st =
     (distinct (world st) \<and>
      (\<forall>e \<in> set (world st). e < next_entity st \<and>
         (\<forall>ent. entities st e = Some ent \<and> alive ent \<longrightarrow> spawnedEntities st (twinName ent) = Some e)))"

text \<open>The messages a step from \<open>st\<close> to \<open>st'\<close> has sent.\<close>

definition sent :: "state \<Rightarrow> state \<Rightarrow> (nat \<times> notification) list" where
  "sent st st' = drop (length (outbox st)) (outbox st')"

section \<open>Two calls of \<^verbatim>\<open>spawnTwin\<close>, step by step\<close>

text \<open>
  \<^verbatim>\<open>spawnTwin\<close> reads the registry in its first statement (\<^verbatim>\<open>isSpawned(name)\<close>) and
  writes it near its end (\<^verbatim>\<open>spawnedEntities[name] = twinEntity\<close>); no lock is held in
  between. A call is therefore two steps, the check and the rest, and two calls that run
  at the same time are an interleaving of their steps, given by a schedule that names the
  call that moves next (\<open>False\<close> the first, \<open>True\<close> the second).
\<close>

datatype spawn_pc = AtCheck | AfterCheck | Returned

fun spawn_step :: "player \<Rightarrow> string \<Rightarrow> bool \<Rightarrow> spawn_pc \<Rightarrow> state \<Rightarrow> spawn_pc \<times> state" where
  "spawn_step p nm ok AtCheck st =
     (if isSpawned st nm then (Returned, sendMessage p (AlreadySpawned nm) st)
      else (AfterCheck, st))"
| "spawn_step p nm ok AfterCheck st = (Returned, spawn_rest p nm ok st)"
| "spawn_step p nm ok Returned st = (Returned, st)"

fun interleave ::
  "player \<times> string \<times> bool \<Rightarrow> player \<times> string \<times> bool \<Rightarrow> bool list \<Rightarrow>
   spawn_pc \<times> spawn_pc \<times> state \<Rightarrow> spawn_pc \<times> spawn_pc \<times> state" where
  "interleave a b [] c = c"
| "interleave (p, nm, ok) b (False # sched) (pc1, pc2, st) =
     (case spawn_step p nm ok pc1 st of
        (pc1', st') \<Rightarrow> interleave (p, nm, ok) b sched (pc1', pc2, st'))"
| "interleave a (q, nm, ok) (True # sched) (pc1, pc2, st) =
     (case spawn_step q nm ok pc2 st of
        (pc2', st') \<Rightarrow> interleave a (q, nm, ok) sched (pc1, pc2', st'))"

section \<open>Example data\<close>

definition maya :: twin_data where
  "maya = \<lparr>name = ''maya'', display_name = ''Maya'', twin_id = ''twin-42'',
           api_endpoint = ''https://replik.tech/api/speak'',
           minecraft_skin_url = None, minecraft_username = None\<rparr>"

definition steve :: player where
  "steve = \<lparr>uuid = 1, blockPos = (10, 64, -3), yaw = 90\<rparr>"

definition alex :: player where
  "alex = \<lparr>uuid = 2, blockPos = (0, 70, 0), yaw = 0\<rparr>"

definition maya_imported :: state where
  "maya_imported = init\<lparr>storage := [maya]\<rparr>"

definition maya_spawned :: state where
  "maya_spawned = spawnTwin (Some steve) ''maya'' True maya_imported"

definition maya_stale :: state where
  "maya_stale = maya_imported\<lparr>spawnedEntities := [''maya'' \<mapsto> 0],
                               entities := [0 \<mapsto> new_entity\<lparr>twinName := ''maya'', alive := False\<rparr>],
                               next_entity := 1, world := [0]\<rparr>"

section \<open>String lemmas\<close>

lemma substring_at: "startsWith s ''@'' \<Longrightarrow> substring s 1 = Some (drop 1 s)"
  by (cases s) (simp_all add: startsWith_def substring_def)

lemma contains_char: "contains s [c] = (c \<in> set s)"
  by (induction s) auto

lemma replace_no_occurrence: "old \<noteq> [] \<Longrightarrow> \<not> contains s old \<Longrightarrow> replace s old new = s"
proof (induction s)
  case Nil
  then show ?case by (simp add: replace.simps)
next
  case (Cons c cs)
  then show ?case by (subst replace.simps) simp
qed

lemma no_straddle:
  assumes "prefix ''/api/speak'' (h @ ''/api/speak'')" and "h \<noteq> []"
  shows "prefix ''/api/speak'' h"
  using assms
  by (auto simp add: prefix_append Cons_eq_append_conv)

lemma replace_skip:
  "old \<noteq> [] \<Longrightarrow> \<not> prefix old (c # cs) \<Longrightarrow> replace (c # cs) old new = c # replace cs old new"
  by (subst replace.simps) simp

lemma replace_trailing_speak:
  "\<not> contains h ''/api/speak'' \<Longrightarrow> replace (h @ ''/api/speak'') ''/api/speak'' [] = h"
proof (induction h)
  case Nil
  show ?case by (simp add: replace.simps)
next
  case (Cons c cs)
  from Cons.prems have "\<not> (prefix ''/api/speak'' (c # cs) \<or> contains cs ''/api/speak'')"
    by (metis contains.simps(2))
  then have here: "\<not> prefix ''/api/speak'' (c # cs)" and later: "\<not> contains cs ''/api/speak''"
    by blast+
  have "\<not> prefix ''/api/speak'' ((c # cs) @ ''/api/speak'')"
    using no_straddle [of "c # cs"] here by blast
  then have "\<not> prefix ''/api/speak'' (c # (cs @ ''/api/speak''))"
    by (metis append_Cons)
  then have "replace (c # (cs @ ''/api/speak'')) ''/api/speak'' [] =
      c # replace (cs @ ''/api/speak'') ''/api/speak'' []"
    by (intro replace_skip) simp
  also have "\<dots> = c # cs"
    by (simp only: Cons.IH [OF later])
  finally show ?case
    by (metis append_Cons)
qed

section \<open>Frame lemmas\<close>

lemma isSpawned_sendMessage [simp]: "isSpawned (sendMessage p m st) nm = isSpawned st nm"
  by (simp add: isSpawned_def isAlive_def sendMessage_def split: option.splits)

lemma getTwinByName_sendMessage [simp]: "getTwinByName (sendMessage p m st) nm = getTwinByName st nm"
  by (simp add: getTwinByName_def sendMessage_def)

lemma isSpawned_Some: "isSpawned st nm \<Longrightarrow> \<exists>e. spawnedEntities st nm = Some e \<and> isAlive st e"
  by (simp add: isSpawned_def split: option.splits)

lemma listTwins_foldl:
  "foldl (\<lambda>s twin. sendMessage p (ListEntry (display_name twin) (isSpawned s (name twin))) s) s0 twins =
   s0\<lparr>outbox := outbox s0 @ map (\<lambda>twin. (uuid p, ListEntry (display_name twin) (isSpawned s0 (name twin)))) twins\<rparr>"
proof (induction twins arbitrary: s0)
  case Nil
  then show ?case by simp
next
  case (Cons t ts)
  show ?case
    by (simp add: Cons.IH) (simp add: sendMessage_def)
qed

lemma listTwins_outbox:
  "outbox (listTwins (Some q) st) = outbox st @
     (if storage st = [] then [(uuid q, NoTwins)]
      else (uuid q, ListHeader) #
           map (\<lambda>twin. (uuid q, ListEntry (display_name twin) (isSpawned st (name twin)))) (storage st))"
  by (simp add: listTwins_def load_def listTwins_foldl) (simp add: sendMessage_def)

lemma listTwins_frame:
  "storage (listTwins src st) = storage st \<and> spawnedEntities (listTwins src st) = spawnedEntities st \<and>
   entities (listTwins src st) = entities st \<and> world (listTwins src st) = world st \<and>
   next_entity (listTwins src st) = next_entity st"
  by (cases src) (simp_all add: listTwins_def load_def listTwins_foldl Let_def, simp_all add: sendMessage_def)

lemma spawn_rest_success:
  assumes "getTwinByName st nm = Some twinData" and "blockPos p = (x, y, z)"
  shows "spawn_rest p nm True st =
     st\<lparr>spawnedEntities := (spawnedEntities st)(nm \<mapsto> next_entity st),
        entities := (entities st)(next_entity st \<mapsto>
          \<lparr>twinName = nm, entity_x = real_of_int x + 0.5, entity_y = real_of_int y,
           entity_z = real_of_int z + 0.5, entity_yaw = yaw p, entity_pitch = 0, alive = True\<rparr>),
        next_entity := Suc (next_entity st),
        world := world st @ [next_entity st],
        outbox := outbox st @ [(uuid p, Spawned (display_name twinData)), (uuid p, ChatHint (name twinData))]\<rparr>"
  using assms
  by (simp add: spawn_rest_def create_def setTwinData_def refreshPositionAndAngles_def
      update_entity_def spawnEntity_def sendMessage_def new_entity_def)

lemma spawn_rest_failures:
  "getTwinByName st nm = None \<Longrightarrow> spawn_rest p nm ok st = sendMessage p (SpawnTwinNotFound nm) st"
  "getTwinByName st nm = Some twinData \<Longrightarrow> spawn_rest p nm False st = sendMessage p CreateFailed st"
  by (simp_all add: spawn_rest_def create_def)

lemma removeTwin_live:
  assumes "spawnedEntities st nm = Some e" and "isAlive st e"
  shows "removeTwin (Some p) nm st =
     (discard e st)\<lparr>spawnedEntities := (spawnedEntities st)(nm := None),
                    outbox := outbox st @ [(uuid p, Despawned nm)]\<rparr>"
  using assms
  by (simp add: removeTwin_def isSpawned_def discard_def terminate_def update_entity_def sendMessage_def
      isAlive_def split: option.splits)

lemma discard_not_alive: "\<not> isAlive (discard e st) e"
  by (simp add: discard_def terminate_def update_entity_def isAlive_def split: option.splits)

lemma discard_world: "e \<notin> set (world (discard e st))"
  by (simp add: discard_def)

lemma maya_found: "getTwinByName maya_imported ''maya'' = Some maya"
  by (simp add: getTwinByName_def maya_imported_def maya_def init_def)

lemma maya_not_spawned: "\<not> isSpawned maya_imported ''maya''"
  by (simp add: isSpawned_def maya_imported_def init_def)

lemma maya_spawned_eq:
  "maya_spawned =
     maya_imported\<lparr>spawnedEntities := [''maya'' \<mapsto> 0],
        entities := [0 \<mapsto> \<lparr>twinName = ''maya'', entity_x = 10.5, entity_y = 64, entity_z = -2.5,
                             entity_yaw = 90, entity_pitch = 0, alive = True\<rparr>],
        next_entity := 1, world := [0],
        outbox := [(1, Spawned ''Maya''), (1, ChatHint ''maya'')]\<rparr>"
proof -
  have pos: "blockPos steve = (10, 64, -3)" by (simp add: steve_def)
  show ?thesis
    unfolding maya_spawned_def
    by (simp add: spawnTwin_def maya_not_spawned spawn_rest_success [OF maya_found pos])
       (simp add: maya_imported_def init_def steve_def maya_def)
qed

lemma maya_spawned_live: "isSpawned maya_spawned ''maya''"
  by (simp add: maya_spawned_eq isSpawned_def isAlive_def)

lemma maya_stale_entry: "spawnedEntities maya_stale ''maya'' = Some 0 \<and> \<not> isAlive maya_stale 0"
  by (simp add: maya_stale_def isAlive_def)

lemma maya_stale_found: "getTwinByName maya_stale ''maya'' = Some maya"
  by (simp add: getTwinByName_def maya_stale_def maya_imported_def maya_def init_def)

section \<open>The registry invariant\<close>

lemma registry_inv_init: "registry_inv init"
  by (simp add: registry_inv_def init_def)

lemma registry_inv_frame:
  assumes "world st' = world st" "next_entity st' = next_entity st" "entities st' = entities st"
    "spawnedEntities st' = spawnedEntities st"
  shows "registry_inv st' = registry_inv st"
  by (simp add: registry_inv_def assms)

lemma registry_inv_sendMessage [simp]: "registry_inv (sendMessage p m st) = registry_inv st"
  by (rule registry_inv_frame) (simp_all add: sendMessage_def)

lemma registry_inv_spawn_rest:
  assumes inv: "registry_inv st" and free: "\<not> isSpawned st nm"
  shows "registry_inv (spawn_rest p nm ok st)"
proof (cases "getTwinByName st nm")
  case None
  then show ?thesis using inv by (simp add: spawn_rest_failures)
next
  case (Some twinData)
  show ?thesis
  proof (cases ok)
    case False
    then show ?thesis using inv Some by (simp add: spawn_rest_failures)
  next
    case True
    obtain x y z where pos: "blockPos p = (x, y, z)" by (cases "blockPos p")
    have old: "spawnedEntities st (twinName ent) = Some e \<and> twinName ent \<noteq> nm"
      if "e \<in> set (world st)" "entities st e = Some ent" "alive ent" for e ent
    proof -
      from inv that have reg: "spawnedEntities st (twinName ent) = Some e"
        by (auto simp add: registry_inv_def)
      moreover have "twinName ent \<noteq> nm"
      proof
        assume "twinName ent = nm"
        with reg that have "isSpawned st nm" by (simp add: isSpawned_def isAlive_def)
        with free show False by simp
      qed
      ultimately show ?thesis by simp
    qed
    have fresh: "next_entity st \<notin> set (world st)"
      using inv by (auto simp add: registry_inv_def)
    have below: "\<forall>e \<in> set (world st). e < next_entity st" and dist: "distinct (world st)"
      using inv by (auto simp add: registry_inv_def)
    from True have ok: "ok = True" by simp
    show ?thesis
      unfolding ok spawn_rest_success [OF Some pos]
      using fresh below dist old
      by (auto simp add: registry_inv_def less_Suc_eq)
  qed
qed

lemma registry_inv_spawnTwin: "registry_inv st \<Longrightarrow> registry_inv (spawnTwin src nm ok st)"
  by (cases src) (simp_all add: spawnTwin_def registry_inv_spawn_rest)

lemma registry_inv_removeTwin:
  assumes inv: "registry_inv st"
  shows "registry_inv (removeTwin src nm st)"
proof (cases src)
  case None
  then show ?thesis using inv by (simp add: removeTwin_def)
next
  case (Some p)
  show ?thesis
  proof (cases "isSpawned st nm")
    case False
    then show ?thesis using inv Some by (simp add: removeTwin_def)
  next
    case True
    then obtain e where e: "spawnedEntities st nm = Some e" "isAlive st e"
      using isSpawned_Some by blast
    have other: "twinName ent \<noteq> nm"
      if "e' \<in> set (world st)" "e' \<noteq> e" "entities st e' = Some ent" "alive ent" for e' ent
    proof
      assume "twinName ent = nm"
      moreover from inv that have "spawnedEntities st (twinName ent) = Some e'"
        by (auto simp add: registry_inv_def)
      ultimately show False using e(1) that(2) by simp
    qed
    show ?thesis
      unfolding Some removeTwin_live [OF e]
      using inv other
      by (auto simp add: registry_inv_def discard_def terminate_def update_entity_def distinct_removeAll
          split: option.splits if_splits)
  qed
qed

lemma registry_inv_terminate: "registry_inv st \<Longrightarrow> registry_inv (terminate e st)"
  by (auto simp add: registry_inv_def terminate_def update_entity_def split: option.splits if_splits)

lemma registry_inv_listTwins: "registry_inv (listTwins src st) = registry_inv st"
  by (rule registry_inv_frame) (simp_all add: listTwins_frame)

lemma registry_inv_importTwin: "registry_inv (fst (importTwin src url st)) = registry_inv st"
  by (cases src) (simp_all add: importTwin_def)

lemma registry_inv_importTwin_done: "registry_inv (importTwin_done p result st) = registry_inv st"
  by (rule registry_inv_frame)
     (simp_all add: importTwin_done_def addTwin_def sendMessage_def Let_def split: sum.splits)

lemma registry_inv_chatWithTwin: "registry_inv (fst (chatWithTwin src nm msg st)) = registry_inv st"
  by (cases src) (simp_all add: chatWithTwin_def split: option.splits)

lemma registry_inv_chatWithTwin_done: "registry_inv (chatWithTwin_done p twinData result st) = registry_inv st"
  by (rule registry_inv_frame)
     (simp_all add: chatWithTwin_done_def playAudioFromUrl_def sendMessage_def Let_def
        split: sum.splits option.splits)

lemma registry_inv_apply_event: "registry_inv st \<Longrightarrow> registry_inv (apply_event ev st)"
  by (cases ev)
     (simp_all add: registry_inv_importTwin registry_inv_importTwin_done registry_inv_listTwins
        registry_inv_spawnTwin registry_inv_chatWithTwin registry_inv_chatWithTwin_done
        registry_inv_removeTwin registry_inv_terminate)

lemma registry_inv_run: "registry_inv st \<Longrightarrow> registry_inv (run evs st)"
  unfolding run_def by (induction evs arbitrary: st) (simp_all add: registry_inv_apply_event)

lemma distinct_all_equal: "distinct xs \<Longrightarrow> \<forall>x \<in> set xs. x = a \<Longrightarrow> length xs \<le> 1"
  by (cases xs; cases "tl xs") auto

lemma registry_inv_live:
  assumes "registry_inv st"
  shows "length (live_instances st nm) \<le> 1 \<and>
         (\<forall>e \<in> set (live_instances st nm). spawnedEntities st nm = Some e)"
proof -
  have reg: "\<forall>e \<in> set (live_instances st nm). spawnedEntities st nm = Some e"
    using assms by (auto simp add: live_instances_def registry_inv_def split: option.splits)
  have "distinct (live_instances st nm)"
    using assms by (simp add: live_instances_def registry_inv_def)
  moreover have "\<forall>e \<in> set (live_instances st nm). e = the (spawnedEntities st nm)"
    using reg by simp
  ultimately have "length (live_instances st nm) \<le> 1"
    by (rule distinct_all_equal)
  with reg show ?thesis by simp
qed

lemma spawn_steps_in_sequence:
  "interleave (p, n1, ok1) (q, n2, ok2) [False, False, True, True] (AtCheck, AtCheck, st) =
     (Returned, Returned, spawnTwin (Some q) n2 ok2 (spawnTwin (Some p) n1 ok1 st))"
  by (simp add: spawnTwin_def)

section \<open>Chat needs a profile, not an instance\<close>

text \<open>
  C4. A player's \<^verbatim>\<open>/twin name message\<close> answers ``Twin not found'' exactly when
  \<^verbatim>\<open>TwinStorage\<close> holds no profile under the name. With a profile it announces that the
  twin is thinking and sends the stored endpoint, the stored twin id and the message to
  the gateway. The registry, the entities and the world play no part: changing them
  changes neither the messages nor the request.
\<close>

theorem chat_needs_profile_only:
  "((chatWithTwin (Some p) nm msg st = (sendMessage p (ChatTwinNotFound nm) st, None)) =
      (getTwinByName st nm = None)) \<and>
   (\<forall>twinData. getTwinByName st nm = Some twinData \<longrightarrow>
      chatWithTwin (Some p) nm msg st =
        (sendMessage p (Thinking (display_name twinData)) st,
         Some (SendChat (api_endpoint twinData) (twin_id twinData) msg))) \<and>
   chatWithTwin (Some p) nm msg (st\<lparr>spawnedEntities := r, entities := h, next_entity := k, world := w\<rparr>) =
     (case chatWithTwin (Some p) nm msg st of
        (st', t) \<Rightarrow> (st'\<lparr>spawnedEntities := r, entities := h, next_entity := k, world := w\<rparr>, t))"
  by (auto simp add: chatWithTwin_def getTwinByName_def sendMessage_def split: option.splits)

theorem chat_needs_profile_only_witness:
  "getTwinByName maya_imported ''maya'' = Some maya \<and>
   \<not> isSpawned maya_imported ''maya'' \<and>
   chatWithTwin (Some steve) ''maya'' ''hello'' maya_imported =
     (sendMessage steve (Thinking ''Maya'') maya_imported,
      Some (SendChat ''https://replik.tech/api/speak'' ''twin-42'' ''hello''))"
  using chat_needs_profile_only [of steve "''maya''" "''hello''" maya_imported]
  by (simp add: maya_found) (simp add: maya_def isSpawned_def maya_imported_def init_def)

section \<open>A failed import\<close>

text \<open>
  C5. When the download of an import throws, the coroutine sends the one message
  ``Failed to import twin'' ending with the exception's message and does nothing else:
  \<^verbatim>\<open>addTwin\<close> is not called and the storage is what it was. The whole command has then
  sent the loading message and the failure message, and a \<^verbatim>\<open>/twinlist\<close> afterwards prints
  what it would have printed before.
\<close>

theorem failed_import_writes_nothing:
  "importTwin_done p (Inl e) st = sendMessage p (ImportFailed (exn_message e)) st \<and>
   storage (importTwin_done p (Inl e) st) = storage st \<and>
   outbox (importTwin_done p (Inl e) (fst (importTwin (Some p) url st))) =
     outbox st @ [(uuid p, Downloading), (uuid p, ImportFailed (exn_message e))] \<and>
   storage (importTwin_done p (Inl e) (fst (importTwin (Some p) url st))) = storage st \<and>
   suffix (template (exn_message e)) (render (ImportFailed (exn_message e))) \<and>
   sent (importTwin_done p (Inl e) st) (listTwins src (importTwin_done p (Inl e) st)) =
     sent st (listTwins src st)"
proof -
  have "sent (importTwin_done p (Inl e) st) (listTwins src (importTwin_done p (Inl e) st)) =
     sent st (listTwins src st)"
  proof (cases src)
    case None
    then show ?thesis by (simp add: listTwins_def sent_def)
  next
    case (Some q)
    then show ?thesis
      by (simp add: listTwins_outbox importTwin_done_def sent_def) (simp add: sendMessage_def)
  qed
  then show ?thesis
    by (simp add: importTwin_done_def importTwin_def sendMessage_def suffix_def)
qed

section \<open>The outcomes of a spawn\<close>

text \<open>
  C6. A player's \<^verbatim>\<open>/twinspawn name\<close> has four outcomes, tried in this order. If the name
  has a live instance, the only effect is the message ``already spawned''. Otherwise, if
  no profile is stored under the name, the only effect is ``Twin not found''. Otherwise,
  if the entity cannot be created, the only effect is ``Failed to create twin entity'',
  and the registry is untouched. Otherwise a new entity carrying the name stands at the
  centre of the player's block with the player's yaw and pitch 0, is in the world and is
  registered under the name, and the player reads the success message and the chat hint.
  The three failure texts differ from each other.
\<close>

theorem spawn_outcomes:
  "(isSpawned st nm \<longrightarrow> spawnTwin (Some p) nm ok st = sendMessage p (AlreadySpawned nm) st) \<and>
   (\<not> isSpawned st nm \<and> getTwinByName st nm = None \<longrightarrow>
      spawnTwin (Some p) nm ok st = sendMessage p (SpawnTwinNotFound nm) st) \<and>
   (\<not> isSpawned st nm \<and> getTwinByName st nm = Some twinData \<longrightarrow>
      spawnTwin (Some p) nm False st = sendMessage p CreateFailed st \<and>
      spawnedEntities (spawnTwin (Some p) nm False st) = spawnedEntities st) \<and>
   (\<not> isSpawned st nm \<and> getTwinByName st nm = Some twinData \<and> blockPos p = (x, y, z) \<longrightarrow>
      spawnTwin (Some p) nm True st =
        st\<lparr>spawnedEntities := (spawnedEntities st)(nm \<mapsto> next_entity st),
           entities := (entities st)(next_entity st \<mapsto>
             \<lparr>twinName = nm, entity_x = real_of_int x + 0.5, entity_y = real_of_int y,
              entity_z = real_of_int z + 0.5, entity_yaw = yaw p, entity_pitch = 0, alive = True\<rparr>),
           next_entity := Suc (next_entity st),
           world := world st @ [next_entity st],
           outbox := outbox st @ [(uuid p, Spawned (display_name twinData)),
                                  (uuid p, ChatHint (name twinData))]\<rparr>) \<and>
   render (AlreadySpawned nm) \<noteq> render (SpawnTwinNotFound nm) \<and>
   render (AlreadySpawned nm) \<noteq> render CreateFailed \<and>
   render (SpawnTwinNotFound nm) \<noteq> render CreateFailed"
proof -
  have texts: "render (AlreadySpawned nm) \<noteq> render (SpawnTwinNotFound nm) \<and>
     render (AlreadySpawned nm) \<noteq> render CreateFailed \<and>
     render (SpawnTwinNotFound nm) \<noteq> render CreateFailed"
    by (simp add: sect_def)
  show ?thesis
    using texts
    by (simp add: spawnTwin_def spawn_rest_failures spawn_rest_success) (simp add: sendMessage_def)
qed

theorem spawn_outcomes_witness:
  "\<not> isSpawned maya_imported ''maya'' \<and> getTwinByName maya_imported ''maya'' = Some maya \<and>
   blockPos steve = (10, 64, -3) \<and>
   spawnTwin (Some steve) ''maya'' False maya_imported = sendMessage steve CreateFailed maya_imported \<and>
   spawnedEntities (spawnTwin (Some steve) ''maya'' True maya_imported) ''maya'' = Some 0 \<and>
   entities (spawnTwin (Some steve) ''maya'' True maya_imported) 0 =
     Some \<lparr>twinName = ''maya'', entity_x = 10.5, entity_y = 64, entity_z = -2.5,
           entity_yaw = 90, entity_pitch = 0, alive = True\<rparr> \<and>
   sent maya_imported (spawnTwin (Some steve) ''maya'' True maya_imported) =
     [(1, Spawned ''Maya''), (1, ChatHint ''maya'')]"
  using spawn_outcomes [of maya_imported "''maya''" steve True maya 10 64 "-3"]
    spawn_outcomes [of maya_imported "''maya''" steve False maya 10 64 "-3"]
  by (simp add: maya_not_spawned maya_found)
     (simp add: steve_def maya_def maya_imported_def init_def sent_def)

section \<open>Removing an instance\<close>

text \<open>
  C7. A player's \<^verbatim>\<open>/twinremove name\<close> for a name without a live instance only answers
  ``not currently spawned''. For a name with a live instance it answers ``Despawned'',
  discards the entity and deletes the registry entry, after which \<^verbatim>\<open>isSpawned\<close> is false.
  In particular a remove right after a successful spawn of the name succeeds.
\<close>

theorem remove_after_spawn:
  "(\<not> isSpawned st nm \<longrightarrow> removeTwin (Some p) nm st = sendMessage p (NotSpawned nm) st) \<and>
   (isSpawned st nm \<longrightarrow>
      sent st (removeTwin (Some p) nm st) = [(uuid p, Despawned nm)] \<and>
      spawnedEntities (removeTwin (Some p) nm st) nm = None \<and>
      \<not> isSpawned (removeTwin (Some p) nm st) nm \<and>
      (\<forall>e. spawnedEntities st nm = Some e \<longrightarrow>
         \<not> isAlive (removeTwin (Some p) nm st) e \<and> e \<notin> set (world (removeTwin (Some p) nm st)))) \<and>
   (\<not> isSpawned st nm \<and> getTwinByName st nm = Some twinData \<longrightarrow>
      isSpawned (spawnTwin (Some q) nm True st) nm \<and>
      sent (spawnTwin (Some q) nm True st) (removeTwin (Some p) nm (spawnTwin (Some q) nm True st)) =
        [(uuid p, Despawned nm)] \<and>
      \<not> isSpawned (removeTwin (Some p) nm (spawnTwin (Some q) nm True st)) nm)"
proof -
  have not_live: "\<not> isSpawned st nm \<longrightarrow> removeTwin (Some p) nm st = sendMessage p (NotSpawned nm) st"
    by (simp add: removeTwin_def)
  have live: "sent s (removeTwin (Some p) nm s) = [(uuid p, Despawned nm)] \<and>
      spawnedEntities (removeTwin (Some p) nm s) nm = None \<and>
      \<not> isSpawned (removeTwin (Some p) nm s) nm \<and>
      (\<forall>e. spawnedEntities s nm = Some e \<longrightarrow>
         \<not> isAlive (removeTwin (Some p) nm s) e \<and> e \<notin> set (world (removeTwin (Some p) nm s)))"
    if "isSpawned s nm" for s
  proof -
    from that obtain e where e: "spawnedEntities s nm = Some e" "isAlive s e"
      using isSpawned_Some by blast
    have "\<not> isAlive (discard e s) e" and "e \<notin> set (world (discard e s))"
      by (rule discard_not_alive, rule discard_world)
    then show ?thesis
      using e(1) by (simp add: removeTwin_live [OF e] sent_def isSpawned_def isAlive_def)
  qed
  have spawned: "isSpawned (spawnTwin (Some q) nm True st) nm"
    if "\<not> isSpawned st nm" "getTwinByName st nm = Some twinData"
  proof -
    obtain x y z where "blockPos q = (x, y, z)" by (cases "blockPos q")
    with that show ?thesis
      by (simp add: spawnTwin_def spawn_rest_success isSpawned_def isAlive_def)
  qed
  show ?thesis
    using not_live live [of st] live [of "spawnTwin (Some q) nm True st"] spawned
    by blast
qed

theorem remove_after_spawn_witness:
  "\<not> isSpawned maya_imported ''maya'' \<and> getTwinByName maya_imported ''maya'' = Some maya \<and>
   removeTwin (Some alex) ''maya'' maya_imported = sendMessage alex (NotSpawned ''maya'') maya_imported \<and>
   isSpawned (spawnTwin (Some steve) ''maya'' True maya_imported) ''maya'' \<and>
   sent (spawnTwin (Some steve) ''maya'' True maya_imported)
     (removeTwin (Some alex) ''maya'' (spawnTwin (Some steve) ''maya'' True maya_imported)) =
     [(2, Despawned ''maya'')] \<and>
   \<not> isSpawned (removeTwin (Some alex) ''maya'' (spawnTwin (Some steve) ''maya'' True maya_imported)) ''maya''"
  using remove_after_spawn [of maya_imported "''maya''" alex maya steve]
  by (simp add: maya_not_spawned maya_found) (simp add: alex_def)

section \<open>A command source without a player\<close>

text \<open>
  C10. When the command source has no player, each of the five handlers returns the state
  it was given, whatever that state is: no message is sent, storage, registry, entities
  and world are untouched, and no coroutine is launched.
\<close>

theorem no_player_no_effect:
  "importTwin None url st = (st, None) \<and> listTwins None st = st \<and>
   spawnTwin None nm ok st = st \<and> chatWithTwin None nm msg st = (st, None) \<and>
   removeTwin None nm st = st"
  by (simp add: importTwin_def listTwins_def spawnTwin_def chatWithTwin_def removeTwin_def)

section \<open>One live instance for each name\<close>

text \<open>
  C1, as the source has it. A player's \<^verbatim>\<open>/twinspawn name\<close> for a name whose registry
  entry refers to an entity that is alive only answers ``already spawned'': the registry,
  the entities and the world stay as they are, so the entry is not overwritten. The
  registry is a map, so a name has at most one entry. When the handlers run one at a
  time, each call finishing before the next starts, then after any history of handler
  runs, coroutine completions and entity terminations from the initial state the world
  holds at most one live entity with a given twin name, and that one is the entity
  registered under the name.
\<close>

theorem one_live_instance:
  "(isSpawned st nm \<longrightarrow>
      spawnTwin (Some p) nm ok st = sendMessage p (AlreadySpawned nm) st \<and>
      spawnedEntities (spawnTwin (Some p) nm ok st) = spawnedEntities st \<and>
      entities (spawnTwin (Some p) nm ok st) = entities st \<and>
      world (spawnTwin (Some p) nm ok st) = world st) \<and>
   length (live_instances (run evs init) nm) \<le> 1 \<and>
   (\<forall>e \<in> set (live_instances (run evs init) nm). spawnedEntities (run evs init) nm = Some e)"
  using registry_inv_live [OF registry_inv_run [OF registry_inv_init], of evs nm]
  by (simp add: spawnTwin_def) (simp add: sendMessage_def)

theorem one_live_instance_witness:
  "isSpawned maya_spawned ''maya'' \<and>
   spawnTwin (Some alex) ''maya'' True maya_spawned = sendMessage alex (AlreadySpawned ''maya'') maya_spawned \<and>
   spawnedEntities (spawnTwin (Some alex) ''maya'' True maya_spawned) ''maya'' = Some 0 \<and>
   live_instances (run [ImportDone steve (Inr maya), SpawnCmd (Some steve) ''maya'' True,
      SpawnCmd (Some alex) ''maya'' True] init) ''maya'' = [0] \<and>
   length (live_instances (run [ImportDone steve (Inr maya), SpawnCmd (Some steve) ''maya'' True,
      SpawnCmd (Some alex) ''maya'' True] init) ''maya'') \<le> 1"
proof -
  let ?evs = "[ImportDone steve (Inr maya), SpawnCmd (Some steve) ''maya'' True,
      SpawnCmd (Some alex) ''maya'' True]"
  have rej: "spawnTwin (Some alex) ''maya'' True maya_spawned = sendMessage alex (AlreadySpawned ''maya'') maya_spawned \<and>
      spawnedEntities (spawnTwin (Some alex) ''maya'' True maya_spawned) = spawnedEntities maya_spawned"
    using one_live_instance [of maya_spawned "''maya''" alex True] maya_spawned_live by blast
  have live: "length (live_instances (run ?evs init) ''maya'') \<le> 1"
    using one_live_instance [of maya_spawned "''maya''" alex True ?evs] by blast
  have run2: "live_instances (run ?evs init) ''maya'' = [0]"
    by (simp add: run_def importTwin_done_def addTwin_def sendMessage_def isNullOrEmpty_def init_def
        spawnTwin_def spawn_rest_def isSpawned_def isAlive_def getTwinByName_def create_def
        setTwinData_def refreshPositionAndAngles_def update_entity_def spawnEntity_def
        live_instances_def steve_def alex_def maya_def new_entity_def)
  have reg: "spawnedEntities maya_spawned ''maya'' = Some 0"
    by (simp add: maya_spawned_eq)
  show ?thesis
    using rej live run2 maya_spawned_live reg by (simp add: sendMessage_def)
qed

text \<open>
  Without that condition the bound fails. \<^verbatim>\<open>spawnTwin\<close> holds no lock between its check
  and its registry write, so a second call can pass the check before the first has
  written. In the schedule below both calls check first; the second call then registers
  its entity, so the name has a live instance; and the first call, already past its
  check, is not rejected but overwrites the entry. The world ends with two live entities
  of one name.
\<close>

theorem interleaved_spawns_two_live:
  "isSpawned (snd (snd (interleave (steve, ''maya'', True) (alex, ''maya'', True) [False, True, True]
        (AtCheck, AtCheck, maya_imported)))) ''maya'' \<and>
   spawnedEntities (snd (snd (interleave (steve, ''maya'', True) (alex, ''maya'', True) [False, True, True]
        (AtCheck, AtCheck, maya_imported)))) ''maya'' = Some 0 \<and>
   spawnedEntities (snd (snd (interleave (steve, ''maya'', True) (alex, ''maya'', True)
        [False, True, True, False] (AtCheck, AtCheck, maya_imported)))) ''maya'' = Some 1 \<and>
   sent maya_imported (snd (snd (interleave (steve, ''maya'', True) (alex, ''maya'', True)
        [False, True, True, False] (AtCheck, AtCheck, maya_imported)))) =
     [(2, Spawned ''Maya''), (2, ChatHint ''maya''), (1, Spawned ''Maya''), (1, ChatHint ''maya'')] \<and>
   live_instances (snd (snd (interleave (steve, ''maya'', True) (alex, ''maya'', True)
        [False, True, True, False] (AtCheck, AtCheck, maya_imported)))) ''maya'' = [0, 1] \<and>
   \<not> length (live_instances (snd (snd (interleave (steve, ''maya'', True) (alex, ''maya'', True)
        [False, True, True, False] (AtCheck, AtCheck, maya_imported)))) ''maya'') \<le> 1"
proof -
  define s1 where "s1 = spawn_rest alex ''maya'' True maya_imported"
  let ?mid = "snd (snd (interleave (steve, ''maya'', True) (alex, ''maya'', True) [False, True, True]
        (AtCheck, AtCheck, maya_imported)))"
  let ?end = "snd (snd (interleave (steve, ''maya'', True) (alex, ''maya'', True)
        [False, True, True, False] (AtCheck, AtCheck, maya_imported)))"
  have steve_pos: "blockPos steve = (10, 64, -3)" and alex_pos: "blockPos alex = (0, 70, 0)"
    by (simp_all add: steve_def alex_def)
  have fields: "uuid steve = 1" "uuid alex = 2" "display_name maya = ''Maya''" "name maya = ''maya''"
    "outbox maya_imported = []" "world maya_imported = []" "entities maya_imported = Map.empty"
    "next_entity maya_imported = 0" "storage maya_imported = [maya]"
    by (simp_all add: steve_def alex_def maya_def maya_imported_def init_def)
  have first: "outbox s1 = [(2, Spawned ''Maya''), (2, ChatHint ''maya'')]" "world s1 = [0]"
    "next_entity s1 = 1" "storage s1 = [maya]" "spawnedEntities s1 ''maya'' = Some 0"
    "entities s1 0 = Some \<lparr>twinName = ''maya'', entity_x = 0.5, entity_y = 70, entity_z = 0.5,
       entity_yaw = yaw alex, entity_pitch = 0, alive = True\<rparr>"
    unfolding s1_def by (simp_all add: spawn_rest_success [OF maya_found alex_pos] fields)
  have found: "getTwinByName s1 ''maya'' = Some maya"
    by (simp add: getTwinByName_def first fields)
  have mid: "?mid = s1"
    by (simp add: maya_not_spawned s1_def)
  have sched: "?end = spawn_rest steve ''maya'' True s1"
    by (simp add: maya_not_spawned s1_def)
  have live: "isSpawned s1 ''maya''"
    by (simp add: isSpawned_def isAlive_def first)
  show ?thesis
    unfolding mid sched spawn_rest_success [OF found steve_pos]
    using live by (simp add: sent_def live_instances_def first fields)
qed

section \<open>The fetch URL of an import\<close>

text \<open>
  What the \<^verbatim>\<open>when\<close> expression computes. A locator that starts with the four
  characters \<^verbatim>\<open>http\<close> is the fetch URL as it is. Otherwise a locator that starts with
  \<^verbatim>\<open>@\<close> loses it and the rest is appended to the user name lookup URL; otherwise a
  locator without \<^verbatim>\<open>/\<close> and without \<^verbatim>\<open>.\<close> is appended whole to the lookup URL; every
  other locator is the fetch URL as it is. \<^verbatim>\<open>alex\<close>, \<^verbatim>\<open>@alex\<close> and the lookup URL of
  \<^verbatim>\<open>alex\<close> give the same fetch URL.
\<close>

lemma finalUrl_rules:
  "(startsWith s ''http'' \<longrightarrow> finalUrl s = s) \<and>
   (startsWith s ''@'' \<longrightarrow> finalUrl s = username_url (drop 1 s) \<and> substring s 1 = Some (drop 1 s)) \<and>
   (\<not> startsWith s ''http'' \<and> \<not> startsWith s ''@'' \<and> CHR ''/'' \<notin> set s \<and> CHR ''.'' \<notin> set s \<longrightarrow>
      finalUrl s = username_url s) \<and>
   (\<not> startsWith s ''http'' \<and> \<not> startsWith s ''@'' \<and> (CHR ''/'' \<in> set s \<or> CHR ''.'' \<in> set s) \<longrightarrow>
      finalUrl s = s) \<and>
   finalUrl ''alex'' = ''https://replik.tech/api/minecraft/export/username/alex'' \<and>
   finalUrl ''@alex'' = ''https://replik.tech/api/minecraft/export/username/alex'' \<and>
   finalUrl ''https://replik.tech/api/minecraft/export/username/alex'' =
     ''https://replik.tech/api/minecraft/export/username/alex''"
proof -
  have at: "startsWith s ''@'' \<Longrightarrow> \<not> startsWith s ''http''"
    by (auto simp add: startsWith_def prefix_def)
  have ex: "finalUrl ''alex'' = ''https://replik.tech/api/minecraft/export/username/alex'' \<and>
   finalUrl ''@alex'' = ''https://replik.tech/api/minecraft/export/username/alex'' \<and>
   finalUrl ''https://replik.tech/api/minecraft/export/username/alex'' =
     ''https://replik.tech/api/minecraft/export/username/alex''"
    by (simp add: finalUrl_def startsWith_def username_url_def)
  show ?thesis
    using at ex substring_at [of s]
    by (auto simp add: finalUrl_def contains_char)
qed

text \<open>
  C2 does not hold for a user name that starts with \<^verbatim>\<open>http\<close>. The name
  \<^verbatim>\<open>httpster\<close> has no colon, so it is no URL, and it has no \<^verbatim>\<open>@\<close>, no \<^verbatim>\<open>/\<close> and no
  \<^verbatim>\<open>.\<close>: the precedence of C2, like the handler's own documentation (``Username without
  @''), makes its import fetch the user name lookup URL of \<^verbatim>\<open>httpster\<close>, as the import
  of \<^verbatim>\<open>@httpster\<close> does and as the import of \<^verbatim>\<open>alex\<close> does for \<^verbatim>\<open>alex\<close>. The source
  takes the branch it comments ``Full URL provided'' and downloads from the name itself.
\<close>

theorem import_httpster:
  "importTwin (Some steve) ''httpster'' init =
     (sendMessage steve Downloading init, Some (DownloadTwin ''httpster'')) \<and>
   importTwin (Some steve) ''@httpster'' init =
     (sendMessage steve Downloading init,
      Some (DownloadTwin ''https://replik.tech/api/minecraft/export/username/httpster'')) \<and>
   importTwin (Some steve) ''alex'' init =
     (sendMessage steve Downloading init,
      Some (DownloadTwin ''https://replik.tech/api/minecraft/export/username/alex'')) \<and>
   CHR '':'' \<notin> set ''httpster'' \<and> \<not> startsWith ''httpster'' ''@'' \<and>
   \<not> contains ''httpster'' ''/'' \<and> \<not> contains ''httpster'' ''.''"
  by (simp add: importTwin_def finalUrl_def startsWith_def username_url_def)

section \<open>The playback URL of an audio reply\<close>

text \<open>
  What the coroutine of \<^verbatim>\<open>chatWithTwin\<close> computes. When the reply carries a non-empty
  audio locator, the URL given to the audio player is the locator itself if it starts with
  the four characters \<^verbatim>\<open>http\<close>, and otherwise the profile's endpoint with every
  occurrence of \<^verbatim>\<open>/api/speak\<close> removed, followed by the locator. For an endpoint that
  ends with \<^verbatim>\<open>/api/speak\<close> and does not contain it before, what remains is the endpoint
  without that ending.
\<close>

lemma audio_url_rules:
  "(startsWith a ''http'' \<longrightarrow> fullAudioUrl twinData a = a) \<and>
   (\<not> startsWith a ''http'' \<longrightarrow>
      fullAudioUrl twinData a = replace (api_endpoint twinData) ''/api/speak'' [] @ a) \<and>
   (\<not> startsWith a ''http'' \<and> api_endpoint twinData = h @ ''/api/speak'' \<and>
    \<not> contains h ''/api/speak'' \<longrightarrow> fullAudioUrl twinData a = h @ a) \<and>
   (audioUrl response = Some a \<and> a \<noteq> [] \<longrightarrow>
      played (chatWithTwin_done p twinData (Inr response) st) = played st @ [fullAudioUrl twinData a])"
proof -
  have base: "replace (api_endpoint twinData) ''/api/speak'' [] = h"
    if "api_endpoint twinData = h @ ''/api/speak''" "\<not> contains h ''/api/speak''"
    unfolding that(1) by (rule replace_trailing_speak [OF that(2)])
  have rel: "fullAudioUrl twinData a = h @ a"
    if "\<not> startsWith a ''http''" "api_endpoint twinData = h @ ''/api/speak''" "\<not> contains h ''/api/speak''"
    using that base by (simp add: fullAudioUrl_def)
  have play: "played (chatWithTwin_done p twinData (Inr response) st) = played st @ [fullAudioUrl twinData a]"
    if "audioUrl response = Some a" "a \<noteq> []"
    using that by (simp add: chatWithTwin_done_def isNullOrEmpty_def playAudioFromUrl_def sendMessage_def)
  show ?thesis
    using rel play by (auto simp add: fullAudioUrl_def)
qed

lemma audio_url_maya:
  "played (chatWithTwin_done steve maya (Inr \<lparr>response_text = ''hi'', audioUrl = Some ''/clip.mp3''\<rparr>) init) =
     [''https://replik.tech/clip.mp3''] \<and>
   played (chatWithTwin_done steve maya
      (Inr \<lparr>response_text = ''hi'', audioUrl = Some ''https://cdn.replik.tech/clip.mp3''\<rparr>) init) =
     [''https://cdn.replik.tech/clip.mp3'']"
  by (simp add: chatWithTwin_done_def isNullOrEmpty_def playAudioFromUrl_def sendMessage_def
      fullAudioUrl_def startsWith_def replace.simps maya_def init_def)

text \<open>
  C3 does not hold for an endpoint that contains \<^verbatim>\<open>/api/speak\<close> before its end. The
  endpoint \<^verbatim>\<open>https://host/api/speakers/7/api/speak\<close> without its trailing segment is
  \<^verbatim>\<open>https://host/api/speakers/7\<close>, so by C3 the relative locator \<^verbatim>\<open>/clip.mp3\<close> plays
  from \<^verbatim>\<open>https://host/api/speakers/7/clip.mp3\<close>. The source, under its comment ``Extract
  base URL from api_endpoint'', removes both occurrences and plays from
  \<^verbatim>\<open>https://hosters/7/clip.mp3\<close>. Nor does C3 hold for a relative locator that starts
  with \<^verbatim>\<open>http\<close>: \<^verbatim>\<open>httpclips/a.mp3\<close> has no colon, so it is no absolute URL, and the
  source, under its comment ``Build full URL if it's a relative path'', plays from the
  locator itself instead of resolving it against the endpoint.
\<close>

theorem chat_audio_speakers_endpoint:
  "played (chatWithTwin_done steve (maya\<lparr>api_endpoint := ''https://host/api/speakers/7/api/speak''\<rparr>)
      (Inr \<lparr>response_text = ''hi'', audioUrl = Some ''/clip.mp3''\<rparr>) init) =
     [''https://hosters/7/clip.mp3''] \<and>
   ''https://host/api/speakers/7/api/speak'' = ''https://host/api/speakers/7'' @ ''/api/speak'' \<and>
   CHR '':'' \<notin> set ''/clip.mp3'' \<and>
   ''https://hosters/7/clip.mp3'' \<noteq> ''https://host/api/speakers/7'' @ ''/clip.mp3'' \<and>
   played (chatWithTwin_done steve maya
      (Inr \<lparr>response_text = ''hi'', audioUrl = Some ''httpclips/a.mp3''\<rparr>) init) =
     [''httpclips/a.mp3''] \<and>
   CHR '':'' \<notin> set ''httpclips/a.mp3'' \<and>
   api_endpoint maya = ''https://replik.tech'' @ ''/api/speak'' \<and>
   ''httpclips/a.mp3'' \<noteq> ''https://replik.tech'' @ ''httpclips/a.mp3''"
  by (simp add: chatWithTwin_done_def isNullOrEmpty_def playAudioFromUrl_def sendMessage_def
      fullAudioUrl_def startsWith_def replace.simps maya_def init_def)

section \<open>Stale registry entries\<close>

text \<open>
  C9. When the registry entry of a name refers to an entity that is not alive,
  \<^verbatim>\<open>isSpawned\<close> is false for the name; a player's \<^verbatim>\<open>/twinremove\<close> only answers ``not
  currently spawned'' and the entry stays; listing and chatting leave the entry too; and
  a player's \<^verbatim>\<open>/twinspawn\<close> is not stopped by the entry but goes on with the statements
  after the check. With a stored profile and a successful construction it then registers
  the new entity under the name in place of the stale one.
\<close>

theorem stale_entry:
  "spawnedEntities st nm = Some e \<and> \<not> isAlive st e \<longrightarrow>
     \<not> isSpawned st nm \<and>
     removeTwin (Some p) nm st = sendMessage p (NotSpawned nm) st \<and>
     spawnedEntities (removeTwin (Some p) nm st) nm = Some e \<and>
     spawnedEntities (listTwins src st) nm = Some e \<and>
     spawnedEntities (fst (chatWithTwin src nm msg st)) nm = Some e \<and>
     spawnTwin (Some p) nm ok st = spawn_rest p nm ok st \<and>
     (\<forall>twinData. getTwinByName st nm = Some twinData \<longrightarrow>
        sent st (spawnTwin (Some p) nm True st) =
          [(uuid p, Spawned (display_name twinData)), (uuid p, ChatHint (name twinData))] \<and>
        spawnedEntities (spawnTwin (Some p) nm True st) nm = Some (next_entity st) \<and>
        isSpawned (spawnTwin (Some p) nm True st) nm \<and>
        (e < next_entity st \<longrightarrow> spawnedEntities (spawnTwin (Some p) nm True st) nm \<noteq> Some e))"
proof
  assume stale: "spawnedEntities st nm = Some e \<and> \<not> isAlive st e"
  then have free: "\<not> isSpawned st nm"
    by (simp add: isSpawned_def)
  have rem: "removeTwin (Some p) nm st = sendMessage p (NotSpawned nm) st"
    using free by (simp add: removeTwin_def)
  have kept: "spawnedEntities (removeTwin (Some p) nm st) nm = Some e"
    using stale by (simp add: rem) (simp add: sendMessage_def)
  have listed: "spawnedEntities (listTwins src st) nm = Some e"
    using stale by (simp add: listTwins_frame)
  have chat: "spawnedEntities (fst (chatWithTwin src nm msg st)) nm = Some e"
    using stale by (cases src) (simp_all add: chatWithTwin_def sendMessage_def split: option.splits)
  have goes: "spawnTwin (Some p) nm ok st = spawn_rest p nm ok st"
    using free by (simp add: spawnTwin_def)
  have over: "sent st (spawnTwin (Some p) nm True st) =
          [(uuid p, Spawned (display_name twinData)), (uuid p, ChatHint (name twinData))] \<and>
        spawnedEntities (spawnTwin (Some p) nm True st) nm = Some (next_entity st) \<and>
        isSpawned (spawnTwin (Some p) nm True st) nm \<and>
        (e < next_entity st \<longrightarrow> spawnedEntities (spawnTwin (Some p) nm True st) nm \<noteq> Some e)"
    if "getTwinByName st nm = Some twinData" for twinData
  proof -
    obtain x y z where pos: "blockPos p = (x, y, z)" by (cases "blockPos p")
    show ?thesis
      using free
      by (simp add: spawnTwin_def spawn_rest_success [OF that pos] sent_def isSpawned_def isAlive_def)
  qed
  show "\<not> isSpawned st nm \<and>
     removeTwin (Some p) nm st = sendMessage p (NotSpawned nm) st \<and>
     spawnedEntities (removeTwin (Some p) nm st) nm = Some e \<and>
     spawnedEntities (listTwins src st) nm = Some e \<and>
     spawnedEntities (fst (chatWithTwin src nm msg st)) nm = Some e \<and>
     spawnTwin (Some p) nm ok st = spawn_rest p nm ok st \<and>
     (\<forall>twinData. getTwinByName st nm = Some twinData \<longrightarrow>
        sent st (spawnTwin (Some p) nm True st) =
          [(uuid p, Spawned (display_name twinData)), (uuid p, ChatHint (name twinData))] \<and>
        spawnedEntities (spawnTwin (Some p) nm True st) nm = Some (next_entity st) \<and>
        isSpawned (spawnTwin (Some p) nm True st) nm \<and>
        (e < next_entity st \<longrightarrow> spawnedEntities (spawnTwin (Some p) nm True st) nm \<noteq> Some e))"
    using free rem kept listed chat goes over by blast
qed

theorem stale_entry_witness:
  "spawnedEntities maya_stale ''maya'' = Some 0 \<and> \<not> isAlive maya_stale 0 \<and>
   getTwinByName maya_stale ''maya'' = Some maya \<and> (0::nat) < next_entity maya_stale \<and>
   \<not> isSpawned maya_stale ''maya'' \<and>
   removeTwin (Some steve) ''maya'' maya_stale = sendMessage steve (NotSpawned ''maya'') maya_stale \<and>
   spawnedEntities (removeTwin (Some steve) ''maya'' maya_stale) ''maya'' = Some 0 \<and>
   sent maya_stale (spawnTwin (Some steve) ''maya'' True maya_stale) =
     [(1, Spawned ''Maya''), (1, ChatHint ''maya'')] \<and>
   spawnedEntities (spawnTwin (Some steve) ''maya'' True maya_stale) ''maya'' = Some 1 \<and>
   isSpawned (spawnTwin (Some steve) ''maya'' True maya_stale) ''maya''"
proof -
  have nxt: "next_entity maya_stale = 1"
    by (simp add: maya_stale_def)
  have "\<not> isSpawned maya_stale ''maya'' \<and>
     removeTwin (Some steve) ''maya'' maya_stale = sendMessage steve (NotSpawned ''maya'') maya_stale \<and>
     spawnedEntities (removeTwin (Some steve) ''maya'' maya_stale) ''maya'' = Some 0 \<and>
     sent maya_stale (spawnTwin (Some steve) ''maya'' True maya_stale) =
       [(uuid steve, Spawned (display_name maya)), (uuid steve, ChatHint (name maya))] \<and>
     spawnedEntities (spawnTwin (Some steve) ''maya'' True maya_stale) ''maya'' = Some (next_entity maya_stale) \<and>
     isSpawned (spawnTwin (Some steve) ''maya'' True maya_stale) ''maya''"
    using stale_entry [of maya_stale "''maya''" 0 steve] maya_stale_entry maya_stale_found by blast
  then show ?thesis
    using maya_stale_entry maya_stale_found nxt by (simp add: steve_def maya_def sendMessage_def)
qed

section \<open>Two spawns of one name\<close>

text \<open>
  C8, as the source has it. The registry write of \<^verbatim>\<open>spawnTwin\<close> is a plain put that
  follows a separate liveness check; there is no insert-if-absent. When two calls for the
  same name run one after the other, the schedule in which the first call takes both its
  steps before the second moves, and the name has a stored profile and no live instance,
  the first call succeeds and the second only answers ``already spawned'': the registry
  and the world hold the first call's entity alone.
\<close>

theorem spawn_twice_in_sequence:
  "interleave (p, nm, True) (q, nm, ok) [False, False, True, True] (AtCheck, AtCheck, st) =
     (Returned, Returned, spawnTwin (Some q) nm ok (spawnTwin (Some p) nm True st)) \<and>
   (\<not> isSpawned st nm \<and> getTwinByName st nm = Some twinData \<longrightarrow>
      sent st (spawnTwin (Some q) nm ok (spawnTwin (Some p) nm True st)) =
        [(uuid p, Spawned (display_name twinData)), (uuid p, ChatHint (name twinData)),
         (uuid q, AlreadySpawned nm)] \<and>
      spawnedEntities (spawnTwin (Some q) nm ok (spawnTwin (Some p) nm True st)) =
        (spawnedEntities st)(nm \<mapsto> next_entity st) \<and>
      world (spawnTwin (Some q) nm ok (spawnTwin (Some p) nm True st)) = world st @ [next_entity st])"
proof -
  have two: "sent st (spawnTwin (Some q) nm ok (spawnTwin (Some p) nm True st)) =
        [(uuid p, Spawned (display_name twinData)), (uuid p, ChatHint (name twinData)),
         (uuid q, AlreadySpawned nm)] \<and>
      spawnedEntities (spawnTwin (Some q) nm ok (spawnTwin (Some p) nm True st)) =
        (spawnedEntities st)(nm \<mapsto> next_entity st) \<and>
      world (spawnTwin (Some q) nm ok (spawnTwin (Some p) nm True st)) = world st @ [next_entity st]"
    if free: "\<not> isSpawned st nm" and found: "getTwinByName st nm = Some twinData"
  proof -
    obtain x y z where pos: "blockPos p = (x, y, z)" by (cases "blockPos p")
    have first: "spawnTwin (Some p) nm True st = spawn_rest p nm True st"
      using free by (simp add: spawnTwin_def)
    have live: "isSpawned (spawn_rest p nm True st) nm"
      by (simp add: spawn_rest_success [OF found pos] isSpawned_def isAlive_def)
    show ?thesis
      unfolding first
      by (simp add: spawnTwin_def live) (simp add: spawn_rest_success [OF found pos] sendMessage_def sent_def)
  qed
  show ?thesis
    using two spawn_steps_in_sequence [of p nm True q nm ok st] by blast
qed

theorem spawn_twice_in_sequence_witness:
  "\<not> isSpawned maya_imported ''maya'' \<and> getTwinByName maya_imported ''maya'' = Some maya \<and>
   sent maya_imported (spawnTwin (Some alex) ''maya'' True (spawnTwin (Some steve) ''maya'' True maya_imported)) =
     [(1, Spawned ''Maya''), (1, ChatHint ''maya''), (2, AlreadySpawned ''maya'')] \<and>
   world (spawnTwin (Some alex) ''maya'' True (spawnTwin (Some steve) ''maya'' True maya_imported)) = [0]"
  using spawn_twice_in_sequence [of steve "''maya''" alex True maya_imported maya]
  by (simp add: maya_not_spawned maya_found) (simp add: steve_def alex_def maya_def maya_imported_def init_def)

text \<open>
  When the steps of the two calls alternate, both calls pass the check before either
  writes the registry: both succeed, the world holds two live entities named alike, and
  the registry keeps the second.
\<close>

theorem concurrent_spawns_both_succeed:
  "sent maya_imported
     (snd (snd (interleave (steve, ''maya'', True) (alex, ''maya'', True) [False, True, False, True]
        (AtCheck, AtCheck, maya_imported)))) =
     [(1, Spawned ''Maya''), (1, ChatHint ''maya''), (2, Spawned ''Maya''), (2, ChatHint ''maya'')] \<and>
   live_instances
     (snd (snd (interleave (steve, ''maya'', True) (alex, ''maya'', True) [False, True, False, True]
        (AtCheck, AtCheck, maya_imported)))) ''maya'' = [0, 1] \<and>
   spawnedEntities
     (snd (snd (interleave (steve, ''maya'', True) (alex, ''maya'', True) [False, True, False, True]
        (AtCheck, AtCheck, maya_imported)))) ''maya'' = Some 1"
proof -
  define s1 where "s1 = spawn_rest steve ''maya'' True maya_imported"
  let ?end = "snd (snd (interleave (steve, ''maya'', True) (alex, ''maya'', True) [False, True, False, True]
        (AtCheck, AtCheck, maya_imported)))"
  have steve_pos: "blockPos steve = (10, 64, -3)" and alex_pos: "blockPos alex = (0, 70, 0)"
    by (simp_all add: steve_def alex_def)
  have fields: "uuid steve = 1" "uuid alex = 2" "display_name maya = ''Maya''" "name maya = ''maya''"
    "outbox maya_imported = []" "world maya_imported = []" "entities maya_imported = Map.empty"
    "next_entity maya_imported = 0" "storage maya_imported = [maya]"
    by (simp_all add: steve_def alex_def maya_def maya_imported_def init_def)
  have first: "outbox s1 = [(1, Spawned ''Maya''), (1, ChatHint ''maya'')]" "world s1 = [0]"
    "next_entity s1 = 1" "storage s1 = [maya]"
    "entities s1 0 = Some \<lparr>twinName = ''maya'', entity_x = 10.5, entity_y = 64, entity_z = -2.5,
       entity_yaw = yaw steve, entity_pitch = 0, alive = True\<rparr>"
    unfolding s1_def by (simp_all add: spawn_rest_success [OF maya_found steve_pos] fields)
  have found: "getTwinByName s1 ''maya'' = Some maya"
    by (simp add: getTwinByName_def first fields)
  have sched: "?end = spawn_rest alex ''maya'' True s1"
    by (simp add: maya_not_spawned s1_def)
  show ?thesis
    unfolding sched spawn_rest_success [OF found alex_pos]
    by (simp add: sent_def live_instances_def first fields)
qed

end
